theory Spec2Isabelle
  imports Main
begin

section \<open>Python values used by the plugin\<close>

text \<open>
  A Python \<open>str\<close> is modelled as the \<^typ>\<open>string\<close> of its UTF-8 bytes. UTF-8 is
  injective and distributes over concatenation, so \<open>==\<close>, \<open>!=\<close>, \<open>+\<close>, f-strings and
  \<open>str.join\<close> on the Python side are equality, inequality and \<open>@\<close> on the bytes.
  The four Chinese message fragments of \<open>plugin.py\<close> are written out byte by byte.
\<close>

subsection \<open>\<open>str(int)\<close>\<close>

definition digit_char :: "nat \<Rightarrow> char" where
  "digit_char d = ''0123456789'' ! d"

fun str_nat :: "nat \<Rightarrow> string" where
  "str_nat n = (if n < 10 then [digit_char n] else str_nat (n div 10) @ [digit_char (n mod 10)])"

declare str_nat.simps [simp del]

text \<open>Python's \<open>str\<close> on an unbounded \<open>int\<close>: a minus sign for negative values, then the
  decimal digits without leading zeros. An f-string field \<open>{n}\<close> formats an \<open>int\<close> the same way.\<close>

definition py_str_int :: "int \<Rightarrow> string" where
  "py_str_int i = (if i < 0 then CHR ''-'' # str_nat (nat (- i)) else str_nat (nat i))"

text \<open>Reading a string of decimal digits back, used to say what "decimal string of the
  value" means independently of \<^const>\<open>str_nat\<close>.\<close>

definition is_digit :: "char \<Rightarrow> bool" where
  "is_digit c = (c \<in> set ''0123456789'')"

definition digit_val :: "char \<Rightarrow> nat" where
  "digit_val c = of_char c - 48"

definition decimal_value :: "string \<Rightarrow> nat" where
  "decimal_value s = foldl (\<lambda>acc c. 10 * acc + digit_val c) 0 s"

subsection \<open>\<open>sep.join(xs)\<close>\<close>

fun py_join :: "string \<Rightarrow> string list \<Rightarrow> string" where
  "py_join sep [] = []"
| "py_join sep [x] = x"
| "py_join sep (x # y # ys) = x @ sep @ py_join sep (y # ys)"

section \<open>Configuration\<close>

text \<open>
  \<open>self.plugin_config\<close> is the nested mapping described by \<open>config_schema\<close>
  (\<open>plugin.py\<close>, lines 203-328); the host loads and validates it, so each section is a
  record with the schema's field types. Keys that occur in both the \<open>search\<close> and the
  \<open>extract\<close> section carry the section name as a prefix, and the three sections used by
  the tools are the fields \<open>provider_section\<close>, \<open>search_section\<close> and \<open>extract_section\<close>.
\<close>

record provider_cfg =
  jina_api_key :: string

record search_cfg =
  search_nation :: string
  search_language :: string
  crawl_details :: bool
  search_timeout :: int
  search_engine_mode :: string
  search_remove_pictures :: bool
  search_move_links_to_end :: bool
  search_move_pics_to_end :: bool
  search_add_pic_alt :: bool

record extract_cfg =
  extract_timeout :: int
  follow_redirect :: bool
  use_custom_prehandler_scripts :: bool
  custom_prehandler_scripts_list :: "string list"
  include_shadow_dom :: bool
  include_iframes :: bool
  extract_remove_pictures :: bool
  use_readerlm_v2 :: bool
  extract_move_links_to_end :: bool
  extract_move_pics_to_end :: bool
  extract_add_pic_alt :: bool
  optimize_for_gpt_oss :: bool
  extract_engine_mode :: string

record plugin_config =
  provider_section :: provider_cfg
  search_section :: search_cfg
  extract_section :: extract_cfg

text \<open>The defaults of \<open>config_schema\<close>.\<close>

definition default_config :: plugin_config where
  "default_config =
    \<lparr> provider_section = \<lparr> jina_api_key = '''' \<rparr>,
      search_section =
        \<lparr> search_nation = ''CN'', search_language = ''zh-cn'', crawl_details = False,
          search_timeout = 10, search_engine_mode = ''default'',
          search_remove_pictures = True, search_move_links_to_end = True,
          search_move_pics_to_end = True, search_add_pic_alt = True \<rparr>,
      extract_section =
        \<lparr> extract_timeout = 10, follow_redirect = True,
          use_custom_prehandler_scripts = False, custom_prehandler_scripts_list = [],
          include_shadow_dom = False, include_iframes = False,
          extract_remove_pictures = True, use_readerlm_v2 = False,
          extract_move_links_to_end = True, extract_move_pics_to_end = True,
          extract_add_pic_alt = True, optimize_for_gpt_oss = False,
          extract_engine_mode = ''default'' \<rparr> \<rparr>"

section \<open>Requests, responses and the HTTP layer\<close>

text \<open>
  The body dictionary holds the tool argument, which is \<open>None\<close> when the caller left the
  key out, and configuration strings. \<open>json.dumps(body)\<close> is the wire form of this
  dictionary; the request keeps the dictionary itself.
\<close>

datatype json = JNull | JStr string

record request =
  endpoint :: string
  headers :: "string \<rightharpoonup> string"
  body :: "string \<rightharpoonup> json"

text \<open>
  Whatever is raised is a value. \<open>Exception m\<close> is an instance of Python's class \<open>Exception\<close>
  with \<open>str(e) = m\<close>: a network failure, a decoding error, or the exception of lines 77 and
  161. \<open>CancelledError m\<close> is an instance of a class that derives from \<open>BaseException\<close> but
  not from \<open>Exception\<close>: \<open>asyncio.CancelledError\<close>, which an \<open>await\<close> raises when the host
  cancels the running tool call, and likewise \<open>KeyboardInterrupt\<close> and \<open>SystemExit\<close>.
  \<open>is_Exception e\<close> is \<open>isinstance(e, Exception)\<close>, the test of \<open>except Exception\<close>.
\<close>

datatype exception =
  is_Exception: Exception (str_of: string)
| CancelledError (str_of: string)

text \<open>A response has its numeric status and the outcome of \<open>await response.text()\<close>,
  which is the text or whatever that \<open>await\<close> raised.\<close>

record response =
  status :: int
  response_text :: "exception + string"

datatype http_outcome = Raised exception | Responded response

text \<open>
  The world outside the plugin: the requests posted so far, and what \<open>session.post\<close> does
  with a request: it raises (the network failed, or the task was cancelled while it
  waited) or it gives the response of the remote service.
\<close>

record world =
  sent :: "request list"
  upstream :: "request \<Rightarrow> http_outcome"

definition session_post :: "request \<Rightarrow> world \<Rightarrow> http_outcome \<times> world" where
  "session_post req w = (upstream w req, w\<lparr>sent := sent w @ [req]\<rparr>)"

text \<open>The statement \<open>if c: headers[k] = v\<close>, which both tools repeat for each optional
  header: the dictionary with \<open>k\<close> set to \<open>v\<close> when \<open>c\<close> holds, unchanged otherwise.\<close>

definition set_header_if ::
  "bool \<Rightarrow> string \<Rightarrow> string \<Rightarrow> (string \<rightharpoonup> string) \<Rightarrow> (string \<rightharpoonup> string)" where
  "set_header_if c k v hs = (if c then hs(k \<mapsto> v) else hs)"

section \<open>The search tool\<close>

definition WebSearchTool_name :: string where
  "WebSearchTool_name = ''search_web''"

text \<open>The configuration value that stands for "leave the parameter out" (lines 46, 48).\<close>

definition not_specified :: string where
  "not_specified = ''not-specified''"

text \<open>UTF-8 of the message of line 77 up to the status code, and of the prefix of line 94.\<close>

definition search_status_message :: string where
  "search_status_message =
    [CHR 0xE6, CHR 0x90, CHR 0x9C, CHR 0xE7, CHR 0xB4, CHR 0xA2, CHR 0xE8, CHR 0xAF, CHR 0xB7,
     CHR 0xE6, CHR 0xB1, CHR 0x82, CHR 0xE5, CHR 0xA4, CHR 0xB1, CHR 0xE8, CHR 0xB4, CHR 0xA5,
     CHR 0xEF, CHR 0xBC, CHR 0x8C, CHR 0xE7, CHR 0x8A, CHR 0xB6, CHR 0xE6, CHR 0x80, CHR 0x81,
     CHR 0xE7, CHR 0xA0, CHR 0x81, CHR 0x3A, CHR 0x20]"

definition search_failed_prefix :: string where
  "search_failed_prefix =
    [CHR 0xE6, CHR 0x90, CHR 0x9C, CHR 0xE7, CHR 0xB4, CHR 0xA2, CHR 0xE5, CHR 0xA4, CHR 0xB1,
     CHR 0xE8, CHR 0xB4, CHR 0xA5, CHR 0x3A, CHR 0x20]"

text \<open>Lines 38-41 and 51-68 of \<open>WebSearchTool.search\<close>: the header dictionary, updated in
  the order of the source.\<close>

definition search_headers :: "plugin_config \<Rightarrow> (string \<rightharpoonup> string)" where
  "search_headers cfg =
    (let s = search_section cfg;
         headers = [''Authorization'' \<mapsto> ''Bearer '' @ jina_api_key (provider_section cfg),
                    ''Content-Type'' \<mapsto> ''application/json'']
     in if crawl_details s then
          (let headers =
                 (if search_engine_mode s = ''fast'' then headers(''X-Engine'' \<mapsto> ''direct'')
                  else if search_engine_mode s = ''quality'' then headers(''X-Engine'' \<mapsto> ''browser'')
                  else headers);
               headers = set_header_if (search_timeout s > 0)
                           ''X-Timeout'' (py_str_int (search_timeout s)) headers;
               headers = set_header_if (search_remove_pictures s) ''X-Retain-Images'' ''none'' headers;
               headers = set_header_if (search_move_links_to_end s)
                           ''X-With-Links-Summary'' ''true'' headers;
               headers = set_header_if (search_move_pics_to_end s)
                           ''X-With-Images-Summary'' ''true'' headers;
               headers = set_header_if (search_add_pic_alt s)
                           ''X-With-Generated-Alt'' ''true'' headers
           in headers)
        else headers(''X-Respond-With'' \<mapsto> ''no-content''))"

text \<open>Lines 42-49: the body dictionary. \<open>kw\<close> is \<open>None\<close> when the tool was called without
  the \<open>keywords\<close> argument.\<close>

definition search_body :: "plugin_config \<Rightarrow> string option \<Rightarrow> (string \<rightharpoonup> json)" where
  "search_body cfg kw =
    (let s = search_section cfg;
         body = [''q'' \<mapsto> (case kw of None \<Rightarrow> JNull | Some k \<Rightarrow> JStr k)];
         body = (if search_nation s \<noteq> not_specified
                 then body(''gl'' \<mapsto> JStr (search_nation s)) else body);
         body = (if search_language s \<noteq> not_specified
                 then body(''hl'' \<mapsto> JStr (search_language s)) else body)
     in body)"

definition search_request :: "plugin_config \<Rightarrow> string option \<Rightarrow> request" where
  "search_request cfg kw =
    \<lparr> endpoint = ''https://s.jina.ai/'', headers = search_headers cfg, body = search_body cfg kw \<rparr>"

text \<open>Lines 70-77: one POST; the text of a 200 response is returned, any other status
  raises. \<open>Inl\<close> is a raised exception.\<close>

definition WebSearchTool_search ::
  "plugin_config \<Rightarrow> string option \<Rightarrow> world \<Rightarrow> (exception + string) \<times> world" where
  "WebSearchTool_search cfg kw w =
    (case session_post (search_request cfg kw) w of
       (Raised e, w') \<Rightarrow> (Inl e, w')
     | (Responded r, w') \<Rightarrow>
         (if status r = 200 then response_text r
          else Inl (Exception (search_status_message @ py_str_int (status r))), w'))"

text \<open>The payload a tool call returns to the host.\<close>

record tool_result =
  name :: string
  content :: string

text \<open>Lines 79-94. \<open>function_args.get("keywords")\<close> is \<open>None\<close> for a missing key. The
  handler of line 93 takes an exception only if it is an instance of \<open>Exception\<close>; any
  other one leaves \<open>execute\<close>. The result is \<open>Inl e\<close> if \<open>e\<close> leaves \<open>execute\<close>, \<open>Inr\<close> of the
  returned dictionary otherwise.\<close>

definition WebSearchTool_execute ::
  "plugin_config \<Rightarrow> (string \<rightharpoonup> string) \<Rightarrow> world \<Rightarrow> (exception + tool_result) \<times> world" where
  "WebSearchTool_execute cfg function_args w =
    (let keywords = function_args ''keywords'' in
     case WebSearchTool_search cfg keywords w of
       (Inr search_results, w') \<Rightarrow>
         (Inr \<lparr> name = WebSearchTool_name, content = search_results \<rparr>, w')
     | (Inl e, w') \<Rightarrow>
         (if is_Exception e
          then Inr \<lparr> name = WebSearchTool_name, content = search_failed_prefix @ str_of e \<rparr>
          else Inl e, w'))"

section \<open>The extraction tool\<close>

definition UrlCrawlTool_name :: string where
  "UrlCrawlTool_name = ''crawl_url''"

text \<open>UTF-8 of the message of line 161 up to the status code, and of the prefix of line 178.\<close>

definition crawl_status_message :: string where
  "crawl_status_message =
    [CHR 0xE5, CHR 0x86, CHR 0x85, CHR 0xE5, CHR 0xAE, CHR 0xB9, CHR 0xE6, CHR 0x8F, CHR 0x90,
     CHR 0xE5, CHR 0x8F, CHR 0x96, CHR 0xE8, CHR 0xAF, CHR 0xB7, CHR 0xE6, CHR 0xB1, CHR 0x82,
     CHR 0xE5, CHR 0xA4, CHR 0xB1, CHR 0xE8, CHR 0xB4, CHR 0xA5, CHR 0xEF, CHR 0xBC, CHR 0x8C,
     CHR 0xE7, CHR 0x8A, CHR 0xB6, CHR 0xE6, CHR 0x80, CHR 0x81, CHR 0xE7, CHR 0xA0, CHR 0x81,
     CHR 0x3A, CHR 0x20]"

definition crawl_failed_prefix :: string where
  "crawl_failed_prefix =
    [CHR 0xE5, CHR 0x86, CHR 0x85, CHR 0xE5, CHR 0xAE, CHR 0xB9, CHR 0xE6, CHR 0x8F, CHR 0x90,
     CHR 0xE5, CHR 0x8F, CHR 0x96, CHR 0xE5, CHR 0xA4, CHR 0xB1, CHR 0xE8, CHR 0xB4, CHR 0xA5,
     CHR 0x3A, CHR 0x20]"

text \<open>Lines 114-117 and 122-152 of \<open>UrlCrawlTool.crawl\<close>. A list is true in a condition
  exactly when it is not empty (line 133).\<close>

definition crawl_headers :: "plugin_config \<Rightarrow> (string \<rightharpoonup> string)" where
  "crawl_headers cfg =
    (let x = extract_section cfg;
         headers = [''Authorization'' \<mapsto> ''Bearer '' @ jina_api_key (provider_section cfg),
                    ''Content-Type'' \<mapsto> ''application/json''];
         headers =
           (if extract_engine_mode x = ''fast'' then headers(''X-Engine'' \<mapsto> ''direct'')
            else if extract_engine_mode x = ''quality'' then headers(''X-Engine'' \<mapsto> ''browser'')
            else headers);
         headers = set_header_if (extract_timeout x > 0)
                     ''X-Timeout'' (py_str_int (extract_timeout x)) headers;
         headers = set_header_if (follow_redirect x) ''X-Follow-Redirects'' ''true'' headers;
         headers =
           (if use_custom_prehandler_scripts x then
              (let headers = headers(''X-Use-Custom-Prehandler-Scripts'' \<mapsto> ''true'')
               in set_header_if (custom_prehandler_scripts_list x \<noteq> [])
                    ''X-Custom-Prehandler-Scripts-List''
                    (py_join '','' (custom_prehandler_scripts_list x)) headers)
            else headers);
         headers = set_header_if (include_shadow_dom x) ''X-Include-Shadow-DOM'' ''true'' headers;
         headers = set_header_if (include_iframes x) ''X-Include-Iframes'' ''true'' headers;
         headers = set_header_if (extract_remove_pictures x) ''X-Retain-Images'' ''none'' headers;
         headers = set_header_if (use_readerlm_v2 x) ''X-Use-ReaderLM-V2'' ''true'' headers;
         headers = set_header_if (extract_move_links_to_end x)
                     ''X-With-Links-Summary'' ''true'' headers;
         headers = set_header_if (extract_move_pics_to_end x)
                     ''X-With-Images-Summary'' ''true'' headers;
         headers = set_header_if (extract_add_pic_alt x) ''X-With-Generated-Alt'' ''true'' headers;
         headers = set_header_if (optimize_for_gpt_oss x) ''X-Optimize-For-GPT-OSS'' ''true'' headers
     in headers)"

definition crawl_body :: "string option \<Rightarrow> (string \<rightharpoonup> json)" where
  "crawl_body url = [''url'' \<mapsto> (case url of None \<Rightarrow> JNull | Some u \<Rightarrow> JStr u)]"

definition crawl_request :: "plugin_config \<Rightarrow> string option \<Rightarrow> request" where
  "crawl_request cfg url =
    \<lparr> endpoint = ''https://r.jina.ai/'', headers = crawl_headers cfg, body = crawl_body url \<rparr>"

text \<open>Lines 154-161.\<close>

definition UrlCrawlTool_crawl ::
  "plugin_config \<Rightarrow> string option \<Rightarrow> world \<Rightarrow> (exception + string) \<times> world" where
  "UrlCrawlTool_crawl cfg url w =
    (case session_post (crawl_request cfg url) w of
       (Raised e, w') \<Rightarrow> (Inl e, w')
     | (Responded r, w') \<Rightarrow>
         (if status r = 200 then response_text r
          else Inl (Exception (crawl_status_message @ py_str_int (status r))), w'))"

text \<open>Lines 163-178, with the handler of line 177.\<close>

definition UrlCrawlTool_execute ::
  "plugin_config \<Rightarrow> (string \<rightharpoonup> string) \<Rightarrow> world \<Rightarrow> (exception + tool_result) \<times> world" where
  "UrlCrawlTool_execute cfg function_args w =
    (let url = function_args ''url'' in
     case UrlCrawlTool_crawl cfg url w of
       (Inr crawl_result, w') \<Rightarrow>
         (Inr \<lparr> name = UrlCrawlTool_name, content = crawl_result \<rparr>, w')
     | (Inl e, w') \<Rightarrow>
         (if is_Exception e
          then Inr \<lparr> name = UrlCrawlTool_name, content = crawl_failed_prefix @ str_of e \<rparr>
          else Inl e, w'))"

section \<open>Helper lemmas\<close>

subsection \<open>Decimal strings\<close>

lemma lt10_cases:
  assumes "(d::nat) < 10"
  shows "d = 0 \<or> d = 1 \<or> d = 2 \<or> d = 3 \<or> d = 4 \<or> d = 5 \<or> d = 6 \<or> d = 7 \<or> d = 8 \<or> d = 9"
  using assms by arith

lemma digit_val_digit_char:
  assumes "d < 10"
  shows "digit_val (digit_char d) = d"
  using lt10_cases[OF assms] by (elim disjE) (simp_all add: digit_val_def digit_char_def)

lemma is_digit_digit_char:
  assumes "d < 10"
  shows "is_digit (digit_char d)"
  using lt10_cases[OF assms] by (elim disjE) (simp_all add: is_digit_def digit_char_def)

lemma digit_char_zero:
  assumes "d < 10" and "digit_char d = CHR ''0''"
  shows "d = 0"
  using lt10_cases[OF assms(1)] assms(2) by (elim disjE) (simp_all add: digit_char_def)

lemma decimal_value_snoc: "decimal_value (s @ [c]) = 10 * decimal_value s + digit_val c"
  by (simp add: decimal_value_def)

lemma str_nat_nonempty: "str_nat n \<noteq> []"
  by (subst str_nat.simps) simp

lemma decimal_value_str_nat: "decimal_value (str_nat n) = n"
proof (induction n rule: str_nat.induct)
  case (1 n)
  show ?case
  proof (cases "n < 10")
    case True
    then show ?thesis
      by (subst str_nat.simps) (simp add: decimal_value_def digit_val_digit_char)
  next
    case False
    with 1 have "decimal_value (str_nat (n div 10)) = n div 10" by simp
    with False show ?thesis
      by (subst str_nat.simps) (simp add: decimal_value_snoc digit_val_digit_char)
  qed
qed

lemma str_nat_digits: "list_all is_digit (str_nat n)"
proof (induction n rule: str_nat.induct)
  case (1 n)
  show ?case
  proof (cases "n < 10")
    case True
    then show ?thesis
      by (subst str_nat.simps) (simp add: is_digit_digit_char)
  next
    case False
    with 1 have "list_all is_digit (str_nat (n div 10))" by simp
    with False show ?thesis
      by (subst str_nat.simps) (simp add: is_digit_digit_char)
  qed
qed

lemma str_nat_no_leading_zero: "0 < n \<Longrightarrow> hd (str_nat n) \<noteq> CHR ''0''"
proof (induction n rule: str_nat.induct)
  case (1 n)
  show ?case
  proof (cases "n < 10")
    case True
    with "1.prems" show ?thesis
      by (subst str_nat.simps) (auto dest: digit_char_zero)
  next
    case False
    then have "0 < n div 10" by simp
    with 1 False have "hd (str_nat (n div 10)) \<noteq> CHR ''0''" by simp
    with False show ?thesis
      by (subst str_nat.simps) (simp add: str_nat_nonempty)
  qed
qed

lemma py_str_int_positive:
  assumes "0 < t"
  shows "list_all is_digit (py_str_int t)" and "decimal_value (py_str_int t) = nat t"
    and "py_str_int t \<noteq> []" and "hd (py_str_int t) \<noteq> CHR ''0''"
  using assms
  by (simp_all add: py_str_int_def str_nat_digits decimal_value_str_nat str_nat_nonempty
      str_nat_no_leading_zero)

subsection \<open>Looking a header up\<close>

lemma set_header_if_apply:
  "set_header_if c k v hs k' = (if c \<and> k' = k then Some v else hs k')"
  by (simp add: set_header_if_def)

lemma search_headers_Authorization:
  "search_headers cfg ''Authorization'' =
    Some (''Bearer '' @ jina_api_key (provider_section cfg))"
  by (simp add: search_headers_def set_header_if_apply Let_def)

lemma search_headers_Content_Type:
  "search_headers cfg ''Content-Type'' =
    Some ''application/json''"
  by (simp add: search_headers_def set_header_if_apply Let_def)

lemma search_headers_X_Engine:
  "search_headers cfg ''X-Engine'' =
    (if crawl_details (search_section cfg) then
       (if search_engine_mode (search_section cfg) = ''fast'' then Some ''direct''
        else if search_engine_mode (search_section cfg) = ''quality'' then Some ''browser''
        else None)
     else None)"
  by (simp add: search_headers_def set_header_if_apply Let_def)

lemma search_headers_X_Timeout:
  "search_headers cfg ''X-Timeout'' =
    (if crawl_details (search_section cfg) then
       (if 0 < search_timeout (search_section cfg)
        then Some (py_str_int (search_timeout (search_section cfg))) else None)
     else None)"
  by (simp add: search_headers_def set_header_if_apply Let_def)

lemma search_headers_X_Retain_Images:
  "search_headers cfg ''X-Retain-Images'' =
    (if crawl_details (search_section cfg) then
       (if search_remove_pictures (search_section cfg) then Some ''none'' else None)
     else None)"
  by (simp add: search_headers_def set_header_if_apply Let_def)

lemma search_headers_X_With_Links_Summary:
  "search_headers cfg ''X-With-Links-Summary'' =
    (if crawl_details (search_section cfg) then
       (if search_move_links_to_end (search_section cfg) then Some ''true'' else None)
     else None)"
  by (simp add: search_headers_def set_header_if_apply Let_def)

lemma search_headers_X_With_Images_Summary:
  "search_headers cfg ''X-With-Images-Summary'' =
    (if crawl_details (search_section cfg) then
       (if search_move_pics_to_end (search_section cfg) then Some ''true'' else None)
     else None)"
  by (simp add: search_headers_def set_header_if_apply Let_def)

lemma search_headers_X_With_Generated_Alt:
  "search_headers cfg ''X-With-Generated-Alt'' =
    (if crawl_details (search_section cfg) then
       (if search_add_pic_alt (search_section cfg) then Some ''true'' else None)
     else None)"
  by (simp add: search_headers_def set_header_if_apply Let_def)

lemma search_headers_X_Respond_With:
  "search_headers cfg ''X-Respond-With'' =
    (if crawl_details (search_section cfg) then None else Some ''no-content'')"
  by (simp add: search_headers_def set_header_if_apply Let_def)

lemma crawl_headers_Authorization:
  "crawl_headers cfg ''Authorization'' =
    Some (''Bearer '' @ jina_api_key (provider_section cfg))"
  by (simp add: crawl_headers_def set_header_if_apply Let_def)

lemma crawl_headers_Content_Type:
  "crawl_headers cfg ''Content-Type'' =
    Some ''application/json''"
  by (simp add: crawl_headers_def set_header_if_apply Let_def)

lemma crawl_headers_X_Engine:
  "crawl_headers cfg ''X-Engine'' =
    (if extract_engine_mode (extract_section cfg) = ''fast'' then Some ''direct''
     else if extract_engine_mode (extract_section cfg) = ''quality'' then Some ''browser''
     else None)"
  by (simp add: crawl_headers_def set_header_if_apply Let_def)

lemma crawl_headers_X_Timeout:
  "crawl_headers cfg ''X-Timeout'' =
    (if 0 < extract_timeout (extract_section cfg)
     then Some (py_str_int (extract_timeout (extract_section cfg))) else None)"
  by (simp add: crawl_headers_def set_header_if_apply Let_def)

lemma crawl_headers_X_Follow_Redirects:
  "crawl_headers cfg ''X-Follow-Redirects'' =
    (if follow_redirect (extract_section cfg) then Some ''true'' else None)"
  by (simp add: crawl_headers_def set_header_if_apply Let_def)

lemma crawl_headers_X_Use_Custom_Prehandler_Scripts:
  "crawl_headers cfg ''X-Use-Custom-Prehandler-Scripts'' =
    (if use_custom_prehandler_scripts (extract_section cfg) then Some ''true'' else None)"
  by (simp add: crawl_headers_def set_header_if_apply Let_def)

lemma crawl_headers_X_Custom_Prehandler_Scripts_List:
  "crawl_headers cfg ''X-Custom-Prehandler-Scripts-List'' =
    (if use_custom_prehandler_scripts (extract_section cfg) \<and> custom_prehandler_scripts_list (extract_section cfg) \<noteq> []
     then Some (py_join '','' (custom_prehandler_scripts_list (extract_section cfg))) else None)"
  by (simp add: crawl_headers_def set_header_if_apply Let_def)

lemma crawl_headers_X_Include_Shadow_DOM:
  "crawl_headers cfg ''X-Include-Shadow-DOM'' =
    (if include_shadow_dom (extract_section cfg) then Some ''true'' else None)"
  by (simp add: crawl_headers_def set_header_if_apply Let_def)

lemma crawl_headers_X_Include_Iframes:
  "crawl_headers cfg ''X-Include-Iframes'' =
    (if include_iframes (extract_section cfg) then Some ''true'' else None)"
  by (simp add: crawl_headers_def set_header_if_apply Let_def)

lemma crawl_headers_X_Retain_Images:
  "crawl_headers cfg ''X-Retain-Images'' =
    (if extract_remove_pictures (extract_section cfg) then Some ''none'' else None)"
  by (simp add: crawl_headers_def set_header_if_apply Let_def)

lemma crawl_headers_X_Use_ReaderLM_V2:
  "crawl_headers cfg ''X-Use-ReaderLM-V2'' =
    (if use_readerlm_v2 (extract_section cfg) then Some ''true'' else None)"
  by (simp add: crawl_headers_def set_header_if_apply Let_def)

lemma crawl_headers_X_With_Links_Summary:
  "crawl_headers cfg ''X-With-Links-Summary'' =
    (if extract_move_links_to_end (extract_section cfg) then Some ''true'' else None)"
  by (simp add: crawl_headers_def set_header_if_apply Let_def)

lemma crawl_headers_X_With_Images_Summary:
  "crawl_headers cfg ''X-With-Images-Summary'' =
    (if extract_move_pics_to_end (extract_section cfg) then Some ''true'' else None)"
  by (simp add: crawl_headers_def set_header_if_apply Let_def)

lemma crawl_headers_X_With_Generated_Alt:
  "crawl_headers cfg ''X-With-Generated-Alt'' =
    (if extract_add_pic_alt (extract_section cfg) then Some ''true'' else None)"
  by (simp add: crawl_headers_def set_header_if_apply Let_def)

lemma crawl_headers_X_Optimize_For_GPT_OSS:
  "crawl_headers cfg ''X-Optimize-For-GPT-OSS'' =
    (if optimize_for_gpt_oss (extract_section cfg) then Some ''true'' else None)"
  by (simp add: crawl_headers_def set_header_if_apply Let_def)

lemmas search_headers_lookup =
  search_headers_Authorization search_headers_Content_Type search_headers_X_Engine search_headers_X_Timeout search_headers_X_Retain_Images search_headers_X_With_Links_Summary search_headers_X_With_Images_Summary search_headers_X_With_Generated_Alt search_headers_X_Respond_With

lemmas crawl_headers_lookup =
  crawl_headers_Authorization crawl_headers_Content_Type crawl_headers_X_Engine crawl_headers_X_Timeout crawl_headers_X_Follow_Redirects crawl_headers_X_Use_Custom_Prehandler_Scripts crawl_headers_X_Custom_Prehandler_Scripts_List crawl_headers_X_Include_Shadow_DOM crawl_headers_X_Include_Iframes crawl_headers_X_Retain_Images crawl_headers_X_Use_ReaderLM_V2 crawl_headers_X_With_Links_Summary crawl_headers_X_With_Images_Summary crawl_headers_X_With_Generated_Alt crawl_headers_X_Optimize_For_GPT_OSS

subsection \<open>Decimal strings of zero and of negative numbers\<close>

lemma py_str_int_zero: "py_str_int 0 = ''0''"
  by (simp add: py_str_int_def str_nat.simps digit_char_def)

lemma py_str_int_negative:
  assumes "t < 0"
  shows "\<exists>ds. py_str_int t = CHR ''-'' # ds \<and> list_all is_digit ds \<and> hd ds \<noteq> CHR ''0''
            \<and> int (decimal_value ds) = - t"
proof -
  from assms have "0 < nat (- t)" by simp
  then have "hd (str_nat (nat (- t))) \<noteq> CHR ''0''" by (rule str_nat_no_leading_zero)
  moreover from assms have "py_str_int t = CHR ''-'' # str_nat (nat (- t))"
    by (simp add: py_str_int_def)
  moreover from assms have "int (decimal_value (str_nat (nat (- t)))) = - t"
    by (simp add: decimal_value_str_nat)
  ultimately show ?thesis using str_nat_digits by blast
qed

subsection \<open>What a tool call returns\<close>

lemma search_execute_eq:
  "WebSearchTool_execute cfg function_args w =
    (case upstream w (search_request cfg (function_args ''keywords'')) of
       Raised e \<Rightarrow>
         if is_Exception e
         then Inr \<lparr> name = ''search_web'', content = search_failed_prefix @ str_of e \<rparr>
         else Inl e
     | Responded r \<Rightarrow>
         if status r = 200
         then (case response_text r of
                 Inr s \<Rightarrow> Inr \<lparr> name = ''search_web'', content = s \<rparr>
               | Inl e \<Rightarrow>
                   if is_Exception e
                   then Inr \<lparr> name = ''search_web'', content = search_failed_prefix @ str_of e \<rparr>
                   else Inl e)
         else Inr \<lparr> name = ''search_web'',
                    content = search_failed_prefix @ search_status_message
                                @ py_str_int (status r) \<rparr>,
     w\<lparr>sent := sent w @ [search_request cfg (function_args ''keywords'')]\<rparr>)"
  by (simp add: WebSearchTool_execute_def WebSearchTool_search_def WebSearchTool_name_def
      session_post_def split: http_outcome.splits sum.splits)

lemma crawl_execute_eq:
  "UrlCrawlTool_execute cfg function_args w =
    (case upstream w (crawl_request cfg (function_args ''url'')) of
       Raised e \<Rightarrow>
         if is_Exception e
         then Inr \<lparr> name = ''crawl_url'', content = crawl_failed_prefix @ str_of e \<rparr>
         else Inl e
     | Responded r \<Rightarrow>
         if status r = 200
         then (case response_text r of
                 Inr s \<Rightarrow> Inr \<lparr> name = ''crawl_url'', content = s \<rparr>
               | Inl e \<Rightarrow>
                   if is_Exception e
                   then Inr \<lparr> name = ''crawl_url'', content = crawl_failed_prefix @ str_of e \<rparr>
                   else Inl e)
         else Inr \<lparr> name = ''crawl_url'',
                    content = crawl_failed_prefix @ crawl_status_message
                                @ py_str_int (status r) \<rparr>,
     w\<lparr>sent := sent w @ [crawl_request cfg (function_args ''url'')]\<rparr>)"
  by (simp add: UrlCrawlTool_execute_def UrlCrawlTool_crawl_def UrlCrawlTool_name_def
      session_post_def split: http_outcome.splits sum.splits)



section \<open>The claims\<close>




text \<open>
  C2. If the remote service answers the tool's request with status 200 and the text
  \<open>body_text\<close>, \<open>execute\<close> returns exactly \<open>{name: "search_web", content: body_text}\<close>,
  and \<open>{name: "crawl_url", content: body_text}\<close> for the extraction tool, whatever the
  configuration and the argument are.
\<close>

theorem ok_body_verbatim:
  "(upstream w (search_request cfg (function_args ''keywords''))
        = Responded \<lparr> status = 200, response_text = Inr body_text \<rparr>
      \<longrightarrow> fst (WebSearchTool_execute cfg function_args w)
            = Inr \<lparr> name = ''search_web'', content = body_text \<rparr>)
   \<and> (upstream w (crawl_request cfg (function_args ''url''))
        = Responded \<lparr> status = 200, response_text = Inr body_text \<rparr>
      \<longrightarrow> fst (UrlCrawlTool_execute cfg function_args w)
            = Inr \<lparr> name = ''crawl_url'', content = body_text \<rparr>)"
  by (simp add: search_execute_eq crawl_execute_eq)

text \<open>The example of the specification: a 200 response with body \<open>OK-RESULT\<close>.\<close>

theorem ok_body_verbatim_witness:
  "fst (WebSearchTool_execute default_config [''keywords'' \<mapsto> ''isabelle prover'']
          \<lparr> sent = [],
            upstream = (\<lambda>_. Responded \<lparr> status = 200, response_text = Inr ''OK-RESULT'' \<rparr>) \<rparr>)
      = Inr \<lparr> name = ''search_web'', content = ''OK-RESULT'' \<rparr>
   \<and> fst (UrlCrawlTool_execute default_config [''url'' \<mapsto> ''https://example.org/'']
          \<lparr> sent = [],
            upstream = (\<lambda>_. Responded \<lparr> status = 200, response_text = Inr ''OK-RESULT'' \<rparr>) \<rparr>)
      = Inr \<lparr> name = ''crawl_url'', content = ''OK-RESULT'' \<rparr>"
  using
    ok_body_verbatim [of
      "\<lparr> sent = [],
         upstream = (\<lambda>_. Responded \<lparr> status = 200, response_text = Inr ''OK-RESULT'' \<rparr>) \<rparr>"
      default_config "[''keywords'' \<mapsto> ''isabelle prover'']" "''OK-RESULT''"]
    ok_body_verbatim [of
      "\<lparr> sent = [],
         upstream = (\<lambda>_. Responded \<lparr> status = 200, response_text = Inr ''OK-RESULT'' \<rparr>) \<rparr>"
      default_config "[''url'' \<mapsto> ''https://example.org/'']" "''OK-RESULT''"]
  by simp

text \<open>
  C3. If the remote service answers with a status \<open>s\<close> other than 200, the search tool
  returns \<open>name = "search_web"\<close> and as \<open>content\<close> the prefix of line 94, the message of
  line 77 and \<open>str(s)\<close>; the extraction tool returns \<open>name = "crawl_url"\<close> and the prefix
  of line 178, the message of line 161 and \<open>str(s)\<close>. In both, \<open>str(s)\<close> is the decimal
  numeral of \<open>s\<close>: for \<open>s\<close> above zero a string of decimal digits without a leading zero
  whose decimal value is \<open>s\<close>, for zero the digit \<open>0\<close>, and for \<open>s\<close> below zero a minus sign
  followed by such a string of digits for \<open>-s\<close>.
\<close>

theorem non_200_failure_content:
  "(upstream w (search_request cfg (function_args ''keywords'')) = Responded r \<and> status r \<noteq> 200
      \<longrightarrow> fst (WebSearchTool_execute cfg function_args w)
            = Inr \<lparr> name = ''search_web'',
                    content = search_failed_prefix @ search_status_message @ py_str_int (status r) \<rparr>)
   \<and> (upstream w (crawl_request cfg (function_args ''url'')) = Responded r \<and> status r \<noteq> 200
      \<longrightarrow> fst (UrlCrawlTool_execute cfg function_args w)
            = Inr \<lparr> name = ''crawl_url'',
                    content = crawl_failed_prefix @ crawl_status_message @ py_str_int (status r) \<rparr>)
   \<and> (0 < status r
      \<longrightarrow> list_all is_digit (py_str_int (status r))
          \<and> hd (py_str_int (status r)) \<noteq> CHR ''0''
          \<and> int (decimal_value (py_str_int (status r))) = status r)
   \<and> (status r = 0 \<longrightarrow> py_str_int (status r) = ''0'')
   \<and> (status r < 0
      \<longrightarrow> (\<exists>ds. py_str_int (status r) = CHR ''-'' # ds
                \<and> list_all is_digit ds \<and> hd ds \<noteq> CHR ''0''
                \<and> int (decimal_value ds) = - status r))"
  by (intro conjI impI;
      simp add: search_execute_eq crawl_execute_eq py_str_int_positive py_str_int_zero
        py_str_int_negative)

text \<open>
  The example of the specification, status 500, with every byte of the two contents
  written out (the UTF-8 of the Chinese text, then \<open>500\<close>), and the search tool against
  a service that answers 404.
\<close>

theorem non_200_failure_content_witness:
  "fst (WebSearchTool_execute default_config [''keywords'' \<mapsto> ''isabelle prover'']
          \<lparr> sent = [],
            upstream = (\<lambda>_. Responded \<lparr> status = 500, response_text = Inr ''Internal Server Error'' \<rparr>) \<rparr>)
      = Inr \<lparr> name = ''search_web'',
              content =
                [CHR 0xE6, CHR 0x90, CHR 0x9C, CHR 0xE7, CHR 0xB4, CHR 0xA2, CHR 0xE5, CHR 0xA4,
                 CHR 0xB1, CHR 0xE8, CHR 0xB4, CHR 0xA5, CHR 0x3A, CHR 0x20,
                 CHR 0xE6, CHR 0x90, CHR 0x9C, CHR 0xE7, CHR 0xB4, CHR 0xA2, CHR 0xE8, CHR 0xAF,
                 CHR 0xB7, CHR 0xE6, CHR 0xB1, CHR 0x82, CHR 0xE5, CHR 0xA4, CHR 0xB1, CHR 0xE8,
                 CHR 0xB4, CHR 0xA5, CHR 0xEF, CHR 0xBC, CHR 0x8C, CHR 0xE7, CHR 0x8A, CHR 0xB6,
                 CHR 0xE6, CHR 0x80, CHR 0x81, CHR 0xE7, CHR 0xA0, CHR 0x81, CHR 0x3A, CHR 0x20]
                @ ''500'' \<rparr>
   \<and> fst (UrlCrawlTool_execute default_config [''url'' \<mapsto> ''https://example.org/'']
          \<lparr> sent = [],
            upstream = (\<lambda>_. Responded \<lparr> status = 500, response_text = Inr ''Internal Server Error'' \<rparr>) \<rparr>)
      = Inr \<lparr> name = ''crawl_url'',
              content =
                [CHR 0xE5, CHR 0x86, CHR 0x85, CHR 0xE5, CHR 0xAE, CHR 0xB9, CHR 0xE6, CHR 0x8F,
                 CHR 0x90, CHR 0xE5, CHR 0x8F, CHR 0x96, CHR 0xE5, CHR 0xA4, CHR 0xB1, CHR 0xE8,
                 CHR 0xB4, CHR 0xA5, CHR 0x3A, CHR 0x20,
                 CHR 0xE5, CHR 0x86, CHR 0x85, CHR 0xE5, CHR 0xAE, CHR 0xB9, CHR 0xE6, CHR 0x8F,
                 CHR 0x90, CHR 0xE5, CHR 0x8F, CHR 0x96, CHR 0xE8, CHR 0xAF, CHR 0xB7, CHR 0xE6,
                 CHR 0xB1, CHR 0x82, CHR 0xE5, CHR 0xA4, CHR 0xB1, CHR 0xE8, CHR 0xB4, CHR 0xA5,
                 CHR 0xEF, CHR 0xBC, CHR 0x8C, CHR 0xE7, CHR 0x8A, CHR 0xB6, CHR 0xE6, CHR 0x80,
                 CHR 0x81, CHR 0xE7, CHR 0xA0, CHR 0x81, CHR 0x3A, CHR 0x20]
                @ ''500'' \<rparr>
   \<and> fst (WebSearchTool_execute default_config [''keywords'' \<mapsto> ''isabelle prover'']
          \<lparr> sent = [],
            upstream = (\<lambda>_. Responded \<lparr> status = 404, response_text = Inr ''Not Found'' \<rparr>) \<rparr>)
      = Inr \<lparr> name = ''search_web'',
              content = search_failed_prefix @ search_status_message @ ''404'' \<rparr>
   \<and> decimal_value ''404'' = 404"
  using
    non_200_failure_content [of
      "\<lparr> sent = [],
         upstream = (\<lambda>_. Responded \<lparr> status = 500, response_text = Inr ''Internal Server Error'' \<rparr>) \<rparr>"
      default_config "[''keywords'' \<mapsto> ''isabelle prover'']"
      "\<lparr> status = 500, response_text = Inr ''Internal Server Error'' \<rparr>"]
    non_200_failure_content [of
      "\<lparr> sent = [],
         upstream = (\<lambda>_. Responded \<lparr> status = 500, response_text = Inr ''Internal Server Error'' \<rparr>) \<rparr>"
      default_config "[''url'' \<mapsto> ''https://example.org/'']"
      "\<lparr> status = 500, response_text = Inr ''Internal Server Error'' \<rparr>"]
    non_200_failure_content [of
      "\<lparr> sent = [],
         upstream = (\<lambda>_. Responded \<lparr> status = 404, response_text = Inr ''Not Found'' \<rparr>) \<rparr>"
      default_config "[''keywords'' \<mapsto> ''isabelle prover'']"
      "\<lparr> status = 404, response_text = Inr ''Not Found'' \<rparr>"]
  by (simp add: search_failed_prefix_def search_status_message_def crawl_failed_prefix_def
      crawl_status_message_def py_str_int_def str_nat.simps digit_char_def)

text \<open>
  C4. With \<open>crawl_details\<close> false, the headers of the search request contain
  \<open>X-Respond-With = no-content\<close> and none of \<open>X-Engine\<close>, \<open>X-Timeout\<close>, \<open>X-Retain-Images\<close>,
  \<open>X-With-Links-Summary\<close>, \<open>X-With-Images-Summary\<close> and \<open>X-With-Generated-Alt\<close>, whatever the
  detail toggles, \<open>engine_mode\<close> and \<open>timeout\<close> are.
\<close>

theorem no_details_headers:
  assumes "\<not> crawl_details (search_section cfg)"
  shows "headers (search_request cfg kw) ''X-Respond-With'' = Some ''no-content''
       \<and> headers (search_request cfg kw) ''X-Engine'' = None
       \<and> headers (search_request cfg kw) ''X-Timeout'' = None
       \<and> headers (search_request cfg kw) ''X-Retain-Images'' = None
       \<and> headers (search_request cfg kw) ''X-With-Links-Summary'' = None
       \<and> headers (search_request cfg kw) ''X-With-Images-Summary'' = None
       \<and> headers (search_request cfg kw) ''X-With-Generated-Alt'' = None"
  using assms by (simp add: search_request_def search_headers_lookup)

text \<open>The defaults (\<open>crawl_details\<close> off, the four detail toggles on) with \<open>engine_mode\<close> set to
  \<open>quality\<close> and \<open>timeout\<close> to 30.\<close>

theorem no_details_headers_witness:
  "headers (search_request
      (default_config\<lparr>search_section := (search_section default_config)
         \<lparr>search_engine_mode := ''quality'', search_timeout := 30\<rparr>\<rparr>) (Some ''isabelle''))
      ''X-Respond-With'' = Some ''no-content''
   \<and> headers (search_request
      (default_config\<lparr>search_section := (search_section default_config)
         \<lparr>search_engine_mode := ''quality'', search_timeout := 30\<rparr>\<rparr>) (Some ''isabelle''))
      ''X-Engine'' = None
   \<and> headers (search_request
      (default_config\<lparr>search_section := (search_section default_config)
         \<lparr>search_engine_mode := ''quality'', search_timeout := 30\<rparr>\<rparr>) (Some ''isabelle''))
      ''X-Timeout'' = None
   \<and> headers (search_request
      (default_config\<lparr>search_section := (search_section default_config)
         \<lparr>search_engine_mode := ''quality'', search_timeout := 30\<rparr>\<rparr>) (Some ''isabelle''))
      ''X-Retain-Images'' = None
   \<and> headers (search_request
      (default_config\<lparr>search_section := (search_section default_config)
         \<lparr>search_engine_mode := ''quality'', search_timeout := 30\<rparr>\<rparr>) (Some ''isabelle''))
      ''X-With-Links-Summary'' = None
   \<and> headers (search_request
      (default_config\<lparr>search_section := (search_section default_config)
         \<lparr>search_engine_mode := ''quality'', search_timeout := 30\<rparr>\<rparr>) (Some ''isabelle''))
      ''X-With-Images-Summary'' = None
   \<and> headers (search_request
      (default_config\<lparr>search_section := (search_section default_config)
         \<lparr>search_engine_mode := ''quality'', search_timeout := 30\<rparr>\<rparr>) (Some ''isabelle''))
      ''X-With-Generated-Alt'' = None"
  using no_details_headers [of
      "default_config\<lparr>search_section := (search_section default_config)
         \<lparr>search_engine_mode := ''quality'', search_timeout := 30\<rparr>\<rparr>" "Some ''isabelle''"]
  by (simp add: default_config_def)

text \<open>
  C5. With \<open>crawl_details\<close> true, the search request has \<open>X-Engine = direct\<close> for
  \<open>engine_mode = "fast"\<close>, \<open>X-Engine = browser\<close> for \<open>"quality"\<close>, and no \<open>X-Engine\<close> header
  for any other value. The extraction request maps its own \<open>engine_mode\<close> the same way,
  under no condition.
\<close>

theorem engine_mode_header:
  "(crawl_details (search_section cfg) \<and> search_engine_mode (search_section cfg) = ''fast''
      \<longrightarrow> headers (search_request cfg kw) ''X-Engine'' = Some ''direct'')
   \<and> (crawl_details (search_section cfg) \<and> search_engine_mode (search_section cfg) = ''quality''
      \<longrightarrow> headers (search_request cfg kw) ''X-Engine'' = Some ''browser'')
   \<and> (crawl_details (search_section cfg) \<and> search_engine_mode (search_section cfg) \<noteq> ''fast''
        \<and> search_engine_mode (search_section cfg) \<noteq> ''quality''
      \<longrightarrow> headers (search_request cfg kw) ''X-Engine'' = None)
   \<and> (extract_engine_mode (extract_section cfg) = ''fast''
      \<longrightarrow> headers (crawl_request cfg url) ''X-Engine'' = Some ''direct'')
   \<and> (extract_engine_mode (extract_section cfg) = ''quality''
      \<longrightarrow> headers (crawl_request cfg url) ''X-Engine'' = Some ''browser'')
   \<and> (extract_engine_mode (extract_section cfg) \<noteq> ''fast''
        \<and> extract_engine_mode (extract_section cfg) \<noteq> ''quality''
      \<longrightarrow> headers (crawl_request cfg url) ''X-Engine'' = None)"
  by (simp add: search_request_def crawl_request_def search_headers_X_Engine
      crawl_headers_X_Engine)

text \<open>Search in mode \<open>fast\<close> with the extraction mode left at \<open>default\<close>, and search in
  mode \<open>quality\<close> with extraction in mode \<open>fast\<close>.\<close>

theorem engine_mode_header_witness:
  "headers (search_request
      (default_config\<lparr>search_section := (search_section default_config)
         \<lparr>crawl_details := True, search_engine_mode := ''fast''\<rparr>\<rparr>) (Some ''isabelle''))
      ''X-Engine'' = Some ''direct''
   \<and> headers (crawl_request
      (default_config\<lparr>search_section := (search_section default_config)
         \<lparr>crawl_details := True, search_engine_mode := ''fast''\<rparr>\<rparr>) (Some ''https://example.org/''))
      ''X-Engine'' = None
   \<and> headers (search_request
      (default_config\<lparr>search_section := (search_section default_config)
         \<lparr>crawl_details := True, search_engine_mode := ''quality''\<rparr>,
        extract_section := (extract_section default_config)
         \<lparr>extract_engine_mode := ''fast''\<rparr>\<rparr>) (Some ''isabelle''))
      ''X-Engine'' = Some ''browser''
   \<and> headers (crawl_request
      (default_config\<lparr>search_section := (search_section default_config)
         \<lparr>crawl_details := True, search_engine_mode := ''quality''\<rparr>,
        extract_section := (extract_section default_config)
         \<lparr>extract_engine_mode := ''fast''\<rparr>\<rparr>) (Some ''https://example.org/''))
      ''X-Engine'' = Some ''direct''"
  using
    engine_mode_header [of
      "default_config\<lparr>search_section := (search_section default_config)
         \<lparr>crawl_details := True, search_engine_mode := ''fast''\<rparr>\<rparr>"
      "Some ''isabelle''" "Some ''https://example.org/''"]
    engine_mode_header [of
      "default_config\<lparr>search_section := (search_section default_config)
         \<lparr>crawl_details := True, search_engine_mode := ''quality''\<rparr>,
        extract_section := (extract_section default_config)
         \<lparr>extract_engine_mode := ''fast''\<rparr>\<rparr>"
      "Some ''isabelle''" "Some ''https://example.org/''"]
  by (simp add: default_config_def)

text \<open>
  C6. As stated the claim fails for the four toggles of the \<open>search\<close> section: they are
  read only under \<open>crawl_details\<close> (line 51), so with \<open>crawl_details\<close> false a toggle that is
  true still has no header. The default configuration is such a case: \<open>remove_pictures\<close> is
  true and the search request carries no \<open>X-Retain-Images\<close>.
\<close>

theorem toggle_headers_counterexample:
  "search_remove_pictures (search_section default_config)
   \<and> headers (search_request default_config (Some ''isabelle'')) ''X-Retain-Images'' = None"
  by (simp add: search_request_def search_headers_lookup default_config_def)

text \<open>
  C6, amended. For the search request with \<open>crawl_details\<close> true, each of the toggles
  \<open>remove_pictures\<close>, \<open>move_links_to_end\<close>, \<open>move_pics_to_end\<close> and \<open>add_pic_alt\<close> is true
  exactly when its header is present with its fixed value, and false exactly when the
  header is absent; with \<open>crawl_details\<close> false none of these four headers is present,
  whatever the toggles are. For the extraction request each of its ten toggles is true
  exactly when its header is present with its fixed value, and false exactly when the
  header is absent, under no condition.
\<close>

theorem toggle_headers:
  "(crawl_details (search_section cfg) \<longrightarrow>
      (search_remove_pictures (search_section cfg)
          \<longleftrightarrow> headers (search_request cfg kw) ''X-Retain-Images'' = Some ''none'')
      \<and> (\<not> search_remove_pictures (search_section cfg)
          \<longleftrightarrow> headers (search_request cfg kw) ''X-Retain-Images'' = None)
      \<and> (search_move_links_to_end (search_section cfg)
          \<longleftrightarrow> headers (search_request cfg kw) ''X-With-Links-Summary'' = Some ''true'')
      \<and> (\<not> search_move_links_to_end (search_section cfg)
          \<longleftrightarrow> headers (search_request cfg kw) ''X-With-Links-Summary'' = None)
      \<and> (search_move_pics_to_end (search_section cfg)
          \<longleftrightarrow> headers (search_request cfg kw) ''X-With-Images-Summary'' = Some ''true'')
      \<and> (\<not> search_move_pics_to_end (search_section cfg)
          \<longleftrightarrow> headers (search_request cfg kw) ''X-With-Images-Summary'' = None)
      \<and> (search_add_pic_alt (search_section cfg)
          \<longleftrightarrow> headers (search_request cfg kw) ''X-With-Generated-Alt'' = Some ''true'')
      \<and> (\<not> search_add_pic_alt (search_section cfg)
          \<longleftrightarrow> headers (search_request cfg kw) ''X-With-Generated-Alt'' = None))
   \<and> (\<not> crawl_details (search_section cfg) \<longrightarrow>
      headers (search_request cfg kw) ''X-Retain-Images'' = None
      \<and> headers (search_request cfg kw) ''X-With-Links-Summary'' = None
      \<and> headers (search_request cfg kw) ''X-With-Images-Summary'' = None
      \<and> headers (search_request cfg kw) ''X-With-Generated-Alt'' = None)
   \<and> (follow_redirect (extract_section cfg)
       \<longleftrightarrow> headers (crawl_request cfg url) ''X-Follow-Redirects'' = Some ''true'')
   \<and> (\<not> follow_redirect (extract_section cfg)
       \<longleftrightarrow> headers (crawl_request cfg url) ''X-Follow-Redirects'' = None)
   \<and> (use_custom_prehandler_scripts (extract_section cfg)
       \<longleftrightarrow> headers (crawl_request cfg url) ''X-Use-Custom-Prehandler-Scripts'' = Some ''true'')
   \<and> (\<not> use_custom_prehandler_scripts (extract_section cfg)
       \<longleftrightarrow> headers (crawl_request cfg url) ''X-Use-Custom-Prehandler-Scripts'' = None)
   \<and> (include_shadow_dom (extract_section cfg)
       \<longleftrightarrow> headers (crawl_request cfg url) ''X-Include-Shadow-DOM'' = Some ''true'')
   \<and> (\<not> include_shadow_dom (extract_section cfg)
       \<longleftrightarrow> headers (crawl_request cfg url) ''X-Include-Shadow-DOM'' = None)
   \<and> (include_iframes (extract_section cfg)
       \<longleftrightarrow> headers (crawl_request cfg url) ''X-Include-Iframes'' = Some ''true'')
   \<and> (\<not> include_iframes (extract_section cfg)
       \<longleftrightarrow> headers (crawl_request cfg url) ''X-Include-Iframes'' = None)
   \<and> (extract_remove_pictures (extract_section cfg)
       \<longleftrightarrow> headers (crawl_request cfg url) ''X-Retain-Images'' = Some ''none'')
   \<and> (\<not> extract_remove_pictures (extract_section cfg)
       \<longleftrightarrow> headers (crawl_request cfg url) ''X-Retain-Images'' = None)
   \<and> (use_readerlm_v2 (extract_section cfg)
       \<longleftrightarrow> headers (crawl_request cfg url) ''X-Use-ReaderLM-V2'' = Some ''true'')
   \<and> (\<not> use_readerlm_v2 (extract_section cfg)
       \<longleftrightarrow> headers (crawl_request cfg url) ''X-Use-ReaderLM-V2'' = None)
   \<and> (extract_move_links_to_end (extract_section cfg)
       \<longleftrightarrow> headers (crawl_request cfg url) ''X-With-Links-Summary'' = Some ''true'')
   \<and> (\<not> extract_move_links_to_end (extract_section cfg)
       \<longleftrightarrow> headers (crawl_request cfg url) ''X-With-Links-Summary'' = None)
   \<and> (extract_move_pics_to_end (extract_section cfg)
       \<longleftrightarrow> headers (crawl_request cfg url) ''X-With-Images-Summary'' = Some ''true'')
   \<and> (\<not> extract_move_pics_to_end (extract_section cfg)
       \<longleftrightarrow> headers (crawl_request cfg url) ''X-With-Images-Summary'' = None)
   \<and> (extract_add_pic_alt (extract_section cfg)
       \<longleftrightarrow> headers (crawl_request cfg url) ''X-With-Generated-Alt'' = Some ''true'')
   \<and> (\<not> extract_add_pic_alt (extract_section cfg)
       \<longleftrightarrow> headers (crawl_request cfg url) ''X-With-Generated-Alt'' = None)
   \<and> (optimize_for_gpt_oss (extract_section cfg)
       \<longleftrightarrow> headers (crawl_request cfg url) ''X-Optimize-For-GPT-OSS'' = Some ''true'')
   \<and> (\<not> optimize_for_gpt_oss (extract_section cfg)
       \<longleftrightarrow> headers (crawl_request cfg url) ''X-Optimize-For-GPT-OSS'' = None)"
  by (intro conjI impI;
      simp add: search_request_def crawl_request_def search_headers_lookup crawl_headers_lookup)

text \<open>With \<open>crawl_details\<close> on and \<open>move_links_to_end\<close> off, at the defaults otherwise:
  the search request has \<open>X-Retain-Images\<close> and no \<open>X-With-Links-Summary\<close>; the extraction
  request has \<open>X-Follow-Redirects\<close> and no \<open>X-Include-Iframes\<close>. At the defaults, where
  \<open>crawl_details\<close> is off and \<open>add_pic_alt\<close> is on, the search request has no
  \<open>X-With-Generated-Alt\<close>.\<close>

theorem toggle_headers_witness:
  "headers (search_request
      (default_config\<lparr>search_section := (search_section default_config)
         \<lparr>crawl_details := True, search_move_links_to_end := False\<rparr>\<rparr>) (Some ''isabelle''))
      ''X-Retain-Images'' = Some ''none''
   \<and> headers (search_request
      (default_config\<lparr>search_section := (search_section default_config)
         \<lparr>crawl_details := True, search_move_links_to_end := False\<rparr>\<rparr>) (Some ''isabelle''))
      ''X-With-Links-Summary'' = None
   \<and> headers (crawl_request
      (default_config\<lparr>search_section := (search_section default_config)
         \<lparr>crawl_details := True, search_move_links_to_end := False\<rparr>\<rparr>)
      (Some ''https://example.org/''))
      ''X-Follow-Redirects'' = Some ''true''
   \<and> headers (crawl_request
      (default_config\<lparr>search_section := (search_section default_config)
         \<lparr>crawl_details := True, search_move_links_to_end := False\<rparr>\<rparr>)
      (Some ''https://example.org/''))
      ''X-Include-Iframes'' = None
   \<and> search_add_pic_alt (search_section default_config)
   \<and> headers (search_request default_config (Some ''isabelle'')) ''X-With-Generated-Alt'' = None"
  using
    toggle_headers [of
      "default_config\<lparr>search_section := (search_section default_config)
         \<lparr>crawl_details := True, search_move_links_to_end := False\<rparr>\<rparr>"
      "Some ''isabelle''" "Some ''https://example.org/''"]
    toggle_headers [of default_config "Some ''isabelle''" "Some ''https://example.org/''"]
  by (simp add: default_config_def)

text \<open>
  C7. For the search request with \<open>crawl_details\<close> true and for the extraction request:
  a \<open>timeout\<close> of zero or less gives no \<open>X-Timeout\<close> header; a \<open>timeout\<close> above zero gives
  the header with \<open>str(timeout)\<close>, which is a non-empty string of decimal digits without
  a leading zero whose decimal value is \<open>timeout\<close>.
\<close>

theorem timeout_header:
  "(crawl_details (search_section cfg) \<and> search_timeout (search_section cfg) \<le> 0
      \<longrightarrow> headers (search_request cfg kw) ''X-Timeout'' = None)
   \<and> (crawl_details (search_section cfg) \<and> 0 < search_timeout (search_section cfg)
      \<longrightarrow> headers (search_request cfg kw) ''X-Timeout''
            = Some (py_str_int (search_timeout (search_section cfg)))
          \<and> list_all is_digit (py_str_int (search_timeout (search_section cfg)))
          \<and> hd (py_str_int (search_timeout (search_section cfg))) \<noteq> CHR ''0''
          \<and> int (decimal_value (py_str_int (search_timeout (search_section cfg))))
              = search_timeout (search_section cfg))
   \<and> (extract_timeout (extract_section cfg) \<le> 0
      \<longrightarrow> headers (crawl_request cfg url) ''X-Timeout'' = None)
   \<and> (0 < extract_timeout (extract_section cfg)
      \<longrightarrow> headers (crawl_request cfg url) ''X-Timeout''
            = Some (py_str_int (extract_timeout (extract_section cfg)))
          \<and> list_all is_digit (py_str_int (extract_timeout (extract_section cfg)))
          \<and> hd (py_str_int (extract_timeout (extract_section cfg))) \<noteq> CHR ''0''
          \<and> int (decimal_value (py_str_int (extract_timeout (extract_section cfg))))
              = extract_timeout (extract_section cfg))"
  by (intro conjI impI;
      simp add: search_request_def crawl_request_def search_headers_X_Timeout
        crawl_headers_X_Timeout py_str_int_positive)

text \<open>A search timeout of 30 seconds gives \<open>X-Timeout = 30\<close>; an extraction timeout of
  \<open>-5\<close> gives no header.\<close>

theorem timeout_header_witness:
  "headers (search_request
      (default_config\<lparr>search_section := (search_section default_config)
         \<lparr>crawl_details := True, search_timeout := 30\<rparr>,
        extract_section := (extract_section default_config)\<lparr>extract_timeout := - 5\<rparr>\<rparr>)
      (Some ''isabelle'')) ''X-Timeout'' = Some ''30''
   \<and> decimal_value ''30'' = 30
   \<and> headers (crawl_request
      (default_config\<lparr>search_section := (search_section default_config)
         \<lparr>crawl_details := True, search_timeout := 30\<rparr>,
        extract_section := (extract_section default_config)\<lparr>extract_timeout := - 5\<rparr>\<rparr>)
      (Some ''https://example.org/'')) ''X-Timeout'' = None"
  using timeout_header [of
      "default_config\<lparr>search_section := (search_section default_config)
         \<lparr>crawl_details := True, search_timeout := 30\<rparr>,
        extract_section := (extract_section default_config)\<lparr>extract_timeout := - 5\<rparr>\<rparr>"
      "Some ''isabelle''" "Some ''https://example.org/''"]
  by (simp add: default_config_def py_str_int_def str_nat.simps digit_char_def)

text \<open>
  C8. For the extraction request: with \<open>use_custom_prehandler_scripts\<close> true and a
  non-empty \<open>custom_prehandler_scripts_list\<close>, \<open>X-Custom-Prehandler-Scripts-List\<close> is the
  comma-join of the list (for a list of two scripts \<open>a\<close> and \<open>b\<close>, \<open>a\<close>, a comma, \<open>b\<close>) and
  \<open>X-Use-Custom-Prehandler-Scripts\<close> is \<open>true\<close>; with an empty list only the usage header
  is present; with \<open>use_custom_prehandler_scripts\<close> false neither header is present,
  whatever the list is.
\<close>

theorem prehandler_scripts_headers:
  "(use_custom_prehandler_scripts (extract_section cfg)
      \<and> custom_prehandler_scripts_list (extract_section cfg) = [a, b]
      \<longrightarrow> headers (crawl_request cfg url) ''X-Custom-Prehandler-Scripts-List''
            = Some (a @ '','' @ b)
          \<and> headers (crawl_request cfg url) ''X-Use-Custom-Prehandler-Scripts'' = Some ''true'')
   \<and> (use_custom_prehandler_scripts (extract_section cfg)
      \<and> custom_prehandler_scripts_list (extract_section cfg) \<noteq> []
      \<longrightarrow> headers (crawl_request cfg url) ''X-Custom-Prehandler-Scripts-List''
            = Some (py_join '','' (custom_prehandler_scripts_list (extract_section cfg)))
          \<and> headers (crawl_request cfg url) ''X-Use-Custom-Prehandler-Scripts'' = Some ''true'')
   \<and> (use_custom_prehandler_scripts (extract_section cfg)
      \<and> custom_prehandler_scripts_list (extract_section cfg) = []
      \<longrightarrow> headers (crawl_request cfg url) ''X-Custom-Prehandler-Scripts-List'' = None
          \<and> headers (crawl_request cfg url) ''X-Use-Custom-Prehandler-Scripts'' = Some ''true'')
   \<and> (\<not> use_custom_prehandler_scripts (extract_section cfg)
      \<longrightarrow> headers (crawl_request cfg url) ''X-Custom-Prehandler-Scripts-List'' = None
          \<and> headers (crawl_request cfg url) ''X-Use-Custom-Prehandler-Scripts'' = None)"
  by (intro conjI impI;
      simp add: crawl_request_def crawl_headers_X_Custom_Prehandler_Scripts_List
        crawl_headers_X_Use_Custom_Prehandler_Scripts)

text \<open>The example of the specification, the list \<open>["a", "b"]\<close> with usage enabled, and the
  same list with usage disabled.\<close>

theorem prehandler_scripts_headers_witness:
  "headers (crawl_request
      (default_config\<lparr>extract_section := (extract_section default_config)
         \<lparr>use_custom_prehandler_scripts := True,
          custom_prehandler_scripts_list := [''a'', ''b'']\<rparr>\<rparr>) (Some ''https://example.org/''))
      ''X-Custom-Prehandler-Scripts-List'' = Some ''a,b''
   \<and> headers (crawl_request
      (default_config\<lparr>extract_section := (extract_section default_config)
         \<lparr>use_custom_prehandler_scripts := True,
          custom_prehandler_scripts_list := [''a'', ''b'']\<rparr>\<rparr>) (Some ''https://example.org/''))
      ''X-Use-Custom-Prehandler-Scripts'' = Some ''true''
   \<and> headers (crawl_request
      (default_config\<lparr>extract_section := (extract_section default_config)
         \<lparr>custom_prehandler_scripts_list := [''a'', ''b'']\<rparr>\<rparr>) (Some ''https://example.org/''))
      ''X-Custom-Prehandler-Scripts-List'' = None"
  using
    prehandler_scripts_headers [of
      "default_config\<lparr>extract_section := (extract_section default_config)
         \<lparr>use_custom_prehandler_scripts := True,
          custom_prehandler_scripts_list := [''a'', ''b'']\<rparr>\<rparr>"
      "''a''" "''b''" "Some ''https://example.org/''"]
    prehandler_scripts_headers [of
      "default_config\<lparr>extract_section := (extract_section default_config)
         \<lparr>custom_prehandler_scripts_list := [''a'', ''b'']\<rparr>\<rparr>"
      "''a''" "''b''" "Some ''https://example.org/''"]
  by (simp add: default_config_def)

text \<open>
  C9. The body of the search request has \<open>q\<close> set to the keywords (to \<open>None\<close> when the
  argument was left out), \<open>gl\<close> set to
  \<open>search_nation\<close> exactly when \<open>search_nation\<close> differs from the sentinel (the string
  \<open>not-specified\<close> in the source), \<open>hl\<close> set to \<open>search_language\<close> exactly when
  \<open>search_language\<close> differs from the sentinel, and no other field; the body does not
  depend on \<open>crawl_details\<close>.
\<close>

theorem search_body_fields:
  "body (search_request cfg kw) ''q'' = Some (case kw of None \<Rightarrow> JNull | Some k \<Rightarrow> JStr k)
   \<and> body (search_request cfg kw) ''gl'' =
       (if search_nation (search_section cfg) \<noteq> not_specified
        then Some (JStr (search_nation (search_section cfg))) else None)
   \<and> body (search_request cfg kw) ''hl'' =
       (if search_language (search_section cfg) \<noteq> not_specified
        then Some (JStr (search_language (search_section cfg))) else None)
   \<and> dom (body (search_request cfg kw)) \<subseteq> {''q'', ''gl'', ''hl''}
   \<and> body (search_request
         (cfg\<lparr>search_section := (search_section cfg)\<lparr>crawl_details := b\<rparr>\<rparr>) kw)
       = body (search_request cfg kw)"
  by (intro conjI; auto simp: search_request_def search_body_def Let_def split: if_splits)

text \<open>The default configuration sends \<open>gl = CN\<close> and \<open>hl = zh-cn\<close>; with the nation set to
  the sentinel, \<open>gl\<close> is left out and \<open>hl\<close> stays.\<close>

theorem search_body_fields_witness:
  "body (search_request default_config (Some ''isabelle prover'')) ''q''
      = Some (JStr ''isabelle prover'')
   \<and> body (search_request default_config (Some ''isabelle prover'')) ''gl'' = Some (JStr ''CN'')
   \<and> body (search_request default_config (Some ''isabelle prover'')) ''hl'' = Some (JStr ''zh-cn'')
   \<and> body (search_request
         (default_config\<lparr>search_section := (search_section default_config)
            \<lparr>search_nation := ''not-specified''\<rparr>\<rparr>) (Some ''isabelle prover'')) ''gl'' = None
   \<and> body (search_request
         (default_config\<lparr>search_section := (search_section default_config)
            \<lparr>search_nation := ''not-specified''\<rparr>\<rparr>) (Some ''isabelle prover'')) ''hl''
      = Some (JStr ''zh-cn'')"
  using
    search_body_fields [of default_config "Some ''isabelle prover''"]
    search_body_fields [of
      "default_config\<lparr>search_section := (search_section default_config)
         \<lparr>search_nation := ''not-specified''\<rparr>\<rparr>"
      "Some ''isabelle prover''"]
  by (simp add: default_config_def not_specified_def)

text \<open>
  C10. Whatever the configuration is, also with an empty \<open>jina_api_key\<close>, a call of
  either tool posts exactly one request, whose headers have \<open>Authorization\<close> equal to
  \<open>"Bearer "\<close> followed by the key and \<open>Content-Type\<close> equal to \<open>application/json\<close>. Nothing
  is checked before the request is sent: what the call gives is decided by the outcome
  of that request alone (the dictionary with the text of a 200 response, or with the
  failure prefix and the message of whatever went wrong, or an exception that is not an
  instance of \<open>Exception\<close>, passed on), so a rejected key shows up as the failure prefix
  with the status message.
\<close>

theorem api_key_not_validated:
  "headers (search_request cfg kw) ''Authorization''
      = Some (''Bearer '' @ jina_api_key (provider_section cfg))
   \<and> headers (search_request cfg kw) ''Content-Type'' = Some ''application/json''
   \<and> headers (crawl_request cfg url) ''Authorization''
      = Some (''Bearer '' @ jina_api_key (provider_section cfg))
   \<and> headers (crawl_request cfg url) ''Content-Type'' = Some ''application/json''
   \<and> sent (snd (WebSearchTool_execute cfg function_args w))
      = sent w @ [search_request cfg (function_args ''keywords'')]
   \<and> sent (snd (UrlCrawlTool_execute cfg function_args w))
      = sent w @ [crawl_request cfg (function_args ''url'')]
   \<and> fst (WebSearchTool_execute cfg function_args w)
      = (case upstream w (search_request cfg (function_args ''keywords'')) of
           Raised e \<Rightarrow>
             if is_Exception e
             then Inr \<lparr> name = ''search_web'', content = search_failed_prefix @ str_of e \<rparr>
             else Inl e
         | Responded r \<Rightarrow>
             if status r = 200
             then (case response_text r of
                     Inr s \<Rightarrow> Inr \<lparr> name = ''search_web'', content = s \<rparr>
                   | Inl e \<Rightarrow>
                       if is_Exception e
                       then Inr \<lparr> name = ''search_web'', content = search_failed_prefix @ str_of e \<rparr>
                       else Inl e)
             else Inr \<lparr> name = ''search_web'',
                        content = search_failed_prefix @ search_status_message @ py_str_int (status r) \<rparr>)
   \<and> fst (UrlCrawlTool_execute cfg function_args w)
      = (case upstream w (crawl_request cfg (function_args ''url'')) of
           Raised e \<Rightarrow>
             if is_Exception e
             then Inr \<lparr> name = ''crawl_url'', content = crawl_failed_prefix @ str_of e \<rparr>
             else Inl e
         | Responded r \<Rightarrow>
             if status r = 200
             then (case response_text r of
                     Inr s \<Rightarrow> Inr \<lparr> name = ''crawl_url'', content = s \<rparr>
                   | Inl e \<Rightarrow>
                       if is_Exception e
                       then Inr \<lparr> name = ''crawl_url'', content = crawl_failed_prefix @ str_of e \<rparr>
                       else Inl e)
             else Inr \<lparr> name = ''crawl_url'',
                        content = crawl_failed_prefix @ crawl_status_message @ py_str_int (status r) \<rparr>)"
  by (intro conjI;
      simp add: search_request_def crawl_request_def search_headers_Authorization
        search_headers_Content_Type crawl_headers_Authorization crawl_headers_Content_Type
        search_execute_eq crawl_execute_eq)

text \<open>The default configuration has the empty key. Against a service that answers 401
  to every request, the request still goes out, with \<open>Authorization\<close> equal to \<open>"Bearer "\<close>,
  and the search tool returns the failure string with 401.\<close>

theorem api_key_not_validated_witness:
  "jina_api_key (provider_section default_config) = []
   \<and> headers (search_request default_config (Some ''isabelle'')) ''Authorization''
      = Some ''Bearer ''
   \<and> sent (snd (WebSearchTool_execute default_config [''keywords'' \<mapsto> ''isabelle'']
        \<lparr> sent = [],
          upstream = (\<lambda>_. Responded \<lparr> status = 401, response_text = Inr ''Unauthorized'' \<rparr>) \<rparr>))
      = [search_request default_config (Some ''isabelle'')]
   \<and> fst (WebSearchTool_execute default_config [''keywords'' \<mapsto> ''isabelle'']
        \<lparr> sent = [],
          upstream = (\<lambda>_. Responded \<lparr> status = 401, response_text = Inr ''Unauthorized'' \<rparr>) \<rparr>)
      = Inr \<lparr> name = ''search_web'',
              content = search_failed_prefix @ search_status_message @ ''401'' \<rparr>"
  using api_key_not_validated [of default_config "Some ''isabelle''" "Some ''https://example.org/''"
      "[''keywords'' \<mapsto> ''isabelle'']"
      "\<lparr> sent = [],
         upstream = (\<lambda>_. Responded \<lparr> status = 401, response_text = Inr ''Unauthorized'' \<rparr>) \<rparr>"]
  by (simp add: default_config_def py_str_int_def str_nat.simps digit_char_def)

end
